theory Spec2Isabelle
  imports Main "HOL-Library.Char_ord" "HOL-Library.List_Lexorder" "HOL-Library.Multiset"
begin

section \<open>Python values, dictionaries and errors\<close>

text \<open>
  The values that reach the client: \<open>None\<close>, booleans, integers, text and parameter
  dictionaries. A dictionary is an association list in insertion order; its keys and
  values are text, the shape of the parameters that \<open>send\<close> builds. Keyword arguments
  (\<open>**kwargs\<close>) are a map from names to values.
\<close>

datatype pyval =
    PNone
  | PBool bool
  | PInt int
  | PStr string
  | PDict "(string \<times> string) list"

type_synonym kwargs = "string \<rightharpoonup> pyval"

text \<open>Python's truth value of an object, as tested by \<open>not x\<close>, \<open>x and y\<close>, \<open>x or y\<close>.\<close>

fun truthy :: "pyval \<Rightarrow> bool" where
  "truthy PNone = False"
| "truthy (PBool b) = b"
| "truthy (PInt n) = (n \<noteq> 0)"
| "truthy (PStr s) = (s \<noteq> [])"
| "truthy (PDict d) = (d \<noteq> [])"

text \<open>\<open>isinstance(x, dict)\<close>.\<close>

fun isinstance_dict :: "pyval \<Rightarrow> bool" where
  "isinstance_dict (PDict d) = True"
| "isinstance_dict v = False"

fun dict_items :: "pyval \<Rightarrow> (string \<times> string) list" where
  "dict_items (PDict d) = d"
| "dict_items v = []"

text \<open>\<open>a or b\<close>.\<close>

definition py_or :: "pyval \<Rightarrow> pyval \<Rightarrow> pyval" where
  "py_or a b = (if truthy a then a else b)"

text \<open>\<open>kwargs.get(k, None)\<close> and \<open>kwargs.setdefault(k, v)\<close>.\<close>

definition kwargs_get :: "kwargs \<Rightarrow> string \<Rightarrow> pyval" where
  "kwargs_get kw k = (case kw k of None \<Rightarrow> PNone | Some v \<Rightarrow> v)"

definition setdefault :: "kwargs \<Rightarrow> string \<Rightarrow> pyval \<Rightarrow> kwargs" where
  "setdefault kw k v = (case kw k of None \<Rightarrow> kw(k \<mapsto> v) | Some w \<Rightarrow> kw)"

text \<open>
  The exceptions: \<open>ValueError\<close> is raised by the constructor, \<open>AttributeError\<close> by a lookup
  of a name the class does not define, \<open>RequestException\<close> stands for whatever the HTTP
  session raises, and \<open>InsecureTransportError\<close> is the specification's error of the
  transport policy.
\<close>

datatype error =
    ValueError string
  | AttributeError string
  | RequestException string
  | InsecureTransportError

text \<open>\<open>sep.join(xs)\<close>.\<close>

fun str_join :: "string \<Rightarrow> string list \<Rightarrow> string" where
  "str_join sep [] = []"
| "str_join sep [x] = x"
| "str_join sep (x # y # ys) = x @ sep @ str_join sep (y # ys)"

text \<open>\<open>s.split(c)\<close> for a one-character separator: \<open>''''.split(c)\<close> is \<open>['''']\<close>.\<close>

fun split_on :: "char \<Rightarrow> string \<Rightarrow> string list" where
  "split_on c [] = [[]]"
| "split_on c (x # xs) =
     (if x = c then [] # split_on c xs
      else (case split_on c xs of [] \<Rightarrow> [[x]] | y # ys \<Rightarrow> (x # y) # ys))"

text \<open>\<open>s.split(c, 1)\<close> when \<open>c\<close> occurs in \<open>s\<close>: the text before and after its first occurrence.\<close>

definition split_first :: "char \<Rightarrow> string \<Rightarrow> string \<times> string" where
  "split_first c s = (takeWhile (\<lambda>x. x \<noteq> c) s, drop 1 (dropWhile (\<lambda>x. x \<noteq> c) s))"


text \<open>ASCII letters, and \<open>str.lower\<close> on them.\<close>

definition ascii_alpha :: "char \<Rightarrow> bool" where
  "ascii_alpha c = (c \<in> set ''abcdefghijklmnopqrstuvwxyzABCDEFGHIJKLMNOPQRSTUVWXYZ'')"

definition ascii_lower :: "char \<Rightarrow> char" where
  "ascii_lower c =
     (if c \<in> set ''ABCDEFGHIJKLMNOPQRSTUVWXYZ'' then char_of (of_char c + (32::nat)) else c)"

section \<open>Percent-encoding\<close>

definition hex_digit :: "nat \<Rightarrow> char" where
  "hex_digit n = ''0123456789ABCDEF'' ! (n mod 16)"

text \<open>The unreserved characters of RFC 3986, which percent-encoding never escapes.\<close>

definition always_safe :: "char \<Rightarrow> bool" where
  "always_safe c =
     (c \<in> set ''ABCDEFGHIJKLMNOPQRSTUVWXYZabcdefghijklmnopqrstuvwxyz0123456789_.-~'')"

definition quote_byte :: "string \<Rightarrow> char \<Rightarrow> string" where
  "quote_byte safe c =
     (if always_safe c \<or> c \<in> set safe then [c]
      else [CHR ''%'', hex_digit (of_char c div 16), hex_digit (of_char c mod 16)])"

text \<open>
  \<open>urllib.parse.quote_from_bytes(bs, safe)\<close>: every byte that is neither unreserved nor in
  \<open>safe\<close> becomes \<open>%XX\<close> with upper-case hexadecimal digits. A string here is the sequence
  of its UTF-8 bytes, which is what \<open>quote\<close> encodes a \<open>str\<close> to first.
\<close>

definition quote_from_bytes :: "string \<Rightarrow> string \<Rightarrow> string" where
  "quote_from_bytes safe bs = concat (map (quote_byte safe) bs)"

section \<open>The helper modules\<close>

subsection \<open>\<open>util\<close>: transport policy and canonical parameter encoding\<close>

text \<open>
  \<open>util.py\<close> is not among the sources. Its two functions, \<open>check_uri_security\<close> and
  \<open>encode_params\<close>, are modelled from the specification's contracts of the
  TransportPolicy and of the CanonicalEncoder.
\<close>

text \<open>
  Modelled from the spec: the scheme of a base endpoint, the text in front of its first
  colon, in lower case since the scheme of a URI is case-insensitive (\<open>util.py\<close> is
  missing).
\<close>

definition uri_scheme :: "string \<Rightarrow> string" where
  "uri_scheme uri =
     (if CHR '':'' \<in> set uri
      then map ascii_lower (takeWhile (\<lambda>c. c \<noteq> CHR '':'') uri) else [])"

text \<open>
  Modelled from the spec: \<open>validate(base_uri) -> base_uri | fails with
  InsecureTransportError\<close>, which rejects any base endpoint whose scheme is not the
  encrypted scheme, as a hard failure and not a warning (\<open>util.check_uri_security\<close> is
  missing).
\<close>

definition check_uri_security :: "string \<Rightarrow> error + string" where
  "check_uri_security uri =
     (if uri_scheme uri \<noteq> ''https'' then Inl InsecureTransportError else Inr uri)"

text \<open>
  Modelled from the spec: the parameters as an ordered sequence, the keys sorted
  lexicographically (\<open>util.encode_params\<close> is missing).
\<close>

definition canonical_pairs :: "(string \<times> string) list \<Rightarrow> (string \<times> string) list" where
  "canonical_pairs params = sort_key fst params"

text \<open>
  Modelled from the spec: one \<open>key=value\<close> pair, its value percent-encoded with a fixed
  table, here the one that leaves the unreserved characters of RFC 3986 alone
  (\<open>util.encode_params\<close> is missing).
\<close>

definition pair_text :: "string \<times> string \<Rightarrow> string" where
  "pair_text kv = fst kv @ ''='' @ quote_from_bytes [] (snd kv)"

text \<open>
  Modelled from the spec: parameters are encoded as an ordered sequence of \<open>key=value\<close>
  pairs joined by \<open>&\<close>, where keys are sorted lexicographically before joining
  (\<open>util.encode_params\<close> is missing).
\<close>

definition encode_params :: "(string \<times> string) list \<Rightarrow> string" where
  "encode_params params = str_join ''&'' (map pair_text (canonical_pairs params))"

text \<open>
  Modelled from the spec: \<open>encode(method, path, timestamp, params) -> bytes\<close>. The
  specification fixes the encoding of the parameters and not the layout of the message
  around them, so the layout is a parameter (\<open>util.py\<close> and \<open>auth.py\<close> are missing).
\<close>

definition CanonicalEncoder_encode ::
  "(string \<Rightarrow> string \<Rightarrow> int \<Rightarrow> string \<Rightarrow> string) \<Rightarrow>
   string \<Rightarrow> string \<Rightarrow> int \<Rightarrow> (string \<times> string) list \<Rightarrow> string" where
  "CanonicalEncoder_encode layout method path timestamp params =
     layout method path timestamp (encode_params params)"

subsection \<open>\<open>compat\<close>: the standard library's \<open>quote\<close> and \<open>urljoin\<close>\<close>

text \<open>
  \<open>compat.py\<close> is not among the sources either, and the specification does not describe
  it. The client takes its \<open>quote\<close> and \<open>urljoin\<close> from the environment record below;
  \<open>imap\<close> is \<open>map\<close>. The names are those of the standard library, and \<open>py_quote\<close> and
  \<open>py_urljoin\<close> follow \<open>urllib.parse\<close> of Python 3.11.

  A call of the library returns, raises, or lies beyond this model: the result of
  \<open>urlsplit\<close>, \<open>urlparse\<close> and \<open>py_urljoin\<close> is \<open>Some (Inr r)\<close> when the library returns
  \<open>r\<close>, \<open>Some (Inl err)\<close> when it raises, and \<open>None\<close> for the authorities that the model
  does not follow: a host in brackets, whose address the library validates, and an
  authority with a character outside ASCII, which the library normalises first.
\<close>

definition py_quote :: "string \<Rightarrow> string" where
  "py_quote s = quote_from_bytes ''/'' s"


definition uses_relative :: "string list" where
  "uses_relative = ['''', ''ftp'', ''http'', ''gopher'', ''nntp'', ''imap'', ''wais'', ''file'',
     ''https'', ''shttp'', ''mms'', ''prospero'', ''rtsp'', ''rtsps'', ''rtspu'', ''sftp'',
     ''svn'', ''svn+ssh'', ''ws'', ''wss'']"

definition uses_netloc :: "string list" where
  "uses_netloc = ['''', ''ftp'', ''http'', ''gopher'', ''nntp'', ''telnet'', ''imap'', ''wais'',
     ''file'', ''mms'', ''https'', ''shttp'', ''snews'', ''prospero'', ''rtsp'', ''rtsps'',
     ''rtspu'', ''rsync'', ''svn'', ''svn+ssh'', ''sftp'', ''nfs'', ''git'', ''git+ssh'',
     ''ws'', ''wss'']"

definition uses_params :: "string list" where
  "uses_params = ['''', ''ftp'', ''hdl'', ''prospero'', ''http'', ''imap'', ''https'', ''shttp'',
     ''rtsp'', ''rtsps'', ''rtspu'', ''sip'', ''sips'', ''mms'', ''sftp'', ''tel'']"

definition scheme_chars :: string where
  "scheme_chars = ''abcdefghijklmnopqrstuvwxyzABCDEFGHIJKLMNOPQRSTUVWXYZ0123456789+-.''"

text \<open>
  What \<open>urlsplit\<close> clears away first: the C0 control characters and the space at the
  front of the URL and at both ends of the default scheme, and every tab, carriage
  return and line feed.
\<close>

definition c0_control_or_space :: "char \<Rightarrow> bool" where
  "c0_control_or_space c = (of_char c \<le> (32::nat))"

definition unsafe_url_byte :: "char \<Rightarrow> bool" where
  "unsafe_url_byte c = (c = CHR 0x09 \<or> c = CHR 0x0D \<or> c = CHR 0x0A)"

definition clean_url :: "string \<Rightarrow> string" where
  "clean_url url = filter (\<lambda>c. \<not> unsafe_url_byte c) (dropWhile c0_control_or_space url)"

definition clean_scheme :: "string \<Rightarrow> string" where
  "clean_scheme scheme =
     filter (\<lambda>c. \<not> unsafe_url_byte c)
       (rev (dropWhile c0_control_or_space (rev (dropWhile c0_control_or_space scheme))))"

record parse_result =
  pr_scheme :: string
  pr_netloc :: string
  pr_path :: string
  pr_params :: string
  pr_query :: string
  pr_fragment :: string

text \<open>\<open>_splitparams\<close>: the parameters follow the first \<open>;\<close> of the last path segment.\<close>

definition splitparams :: "string \<Rightarrow> string \<times> string" where
  "splitparams url =
     (let seg = last (split_on CHR ''/'' url);
          front = take (length url - length seg) url
      in if CHR '';'' \<in> set seg
         then (front @ takeWhile (\<lambda>c. c \<noteq> CHR '';'') seg,
               drop 1 (dropWhile (\<lambda>c. c \<noteq> CHR '';'') seg))
         else (url, []))"

text \<open>\<open>_splitnetloc(url, 2)\<close>: the authority ends at the first \<open>/\<close>, \<open>?\<close> or \<open>#\<close>.\<close>

definition splitnetloc :: "string \<Rightarrow> string \<times> string" where
  "splitnetloc url =
     (takeWhile (\<lambda>c. c \<notin> set ''/?#'') (drop 2 url),
      dropWhile (\<lambda>c. c \<notin> set ''/?#'') (drop 2 url))"

text \<open>
  The test of \<open>urlsplit\<close> for a scheme: a colon that is not the first character, in front
  of it a letter followed by scheme characters only.
\<close>

definition has_scheme :: "string \<Rightarrow> bool" where
  "has_scheme url =
     (CHR '':'' \<in> set url \<and> takeWhile (\<lambda>c. c \<noteq> CHR '':'') url \<noteq> [] \<and> ascii_alpha (hd url) \<and>
      list_all (\<lambda>c. c \<in> set scheme_chars) (takeWhile (\<lambda>c. c \<noteq> CHR '':'') url))"

text \<open>
  An authority with one kind of bracket only makes \<open>urlsplit\<close> raise
  \<open>ValueError("Invalid IPv6 URL")\<close>.
\<close>

definition bracket_mismatch :: "string \<Rightarrow> bool" where
  "bracket_mismatch netloc =
     (CHR ''['' \<in> set netloc \<and> CHR '']'' \<notin> set netloc
      \<or> CHR '']'' \<in> set netloc \<and> CHR ''['' \<notin> set netloc)"

text \<open>The authorities beyond the model: a host in brackets, a character outside ASCII.\<close>

definition beyond_model :: "string \<Rightarrow> bool" where
  "beyond_model netloc =
     (CHR ''['' \<in> set netloc \<or> list_ex (\<lambda>c. (128::nat) \<le> of_char c) netloc)"

record split_result =
  sr_scheme :: string
  sr_netloc :: string
  sr_path :: string
  sr_query :: string
  sr_fragment :: string

text \<open>The five components that \<open>urlsplit(url, scheme)\<close> finds.\<close>

definition split_fields :: "string \<Rightarrow> string \<Rightarrow> split_result" where
  "split_fields url_arg scheme_arg =
     (let url0 = clean_url url_arg;
          scheme0 = clean_scheme scheme_arg;
          scheme = (if has_scheme url0
                    then map ascii_lower (takeWhile (\<lambda>c. c \<noteq> CHR '':'') url0) else scheme0);
          url1 = (if has_scheme url0
                  then drop 1 (dropWhile (\<lambda>c. c \<noteq> CHR '':'') url0) else url0);
          netloc = (if take 2 url1 = ''//'' then fst (splitnetloc url1) else []);
          url2 = (if take 2 url1 = ''//'' then snd (splitnetloc url1) else url1);
          fragment = (if CHR ''#'' \<in> set url2 then snd (split_first CHR ''#'' url2) else []);
          url3 = (if CHR ''#'' \<in> set url2 then fst (split_first CHR ''#'' url2) else url2);
          query = (if CHR ''?'' \<in> set url3 then snd (split_first CHR ''?'' url3) else []);
          url4 = (if CHR ''?'' \<in> set url3 then fst (split_first CHR ''?'' url3) else url3)
      in \<lparr>sr_scheme = scheme, sr_netloc = netloc, sr_path = url4, sr_query = query,
          sr_fragment = fragment\<rparr>)"

text \<open>
  \<open>urlsplit(url, scheme)\<close>: it raises for an authority with an unmatched bracket, and
  the model stops at a bracketed host and at an authority outside ASCII.
\<close>

definition urlsplit :: "string \<Rightarrow> string \<Rightarrow> (error + split_result) option" where
  "urlsplit url scheme =
     (let r = split_fields url scheme
      in if bracket_mismatch (sr_netloc r) then Some (Inl (ValueError ''Invalid IPv6 URL''))
         else if beyond_model (sr_netloc r) then None
         else Some (Inr r))"

text \<open>\<open>urlparse(url, scheme)\<close>: \<open>urlsplit\<close>, then the split of the parameters.\<close>

definition with_params :: "split_result \<Rightarrow> parse_result" where
  "with_params r =
     (let found = (sr_scheme r \<in> set uses_params \<and> CHR '';'' \<in> set (sr_path r))
      in \<lparr>pr_scheme = sr_scheme r, pr_netloc = sr_netloc r,
          pr_path = (if found then fst (splitparams (sr_path r)) else sr_path r),
          pr_params = (if found then snd (splitparams (sr_path r)) else []),
          pr_query = sr_query r, pr_fragment = sr_fragment r\<rparr>)"

definition urlparse :: "string \<Rightarrow> string \<Rightarrow> (error + parse_result) option" where
  "urlparse url scheme =
     (case urlsplit url scheme of
        None \<Rightarrow> None
      | Some (Inl err) \<Rightarrow> Some (Inl err)
      | Some (Inr r) \<Rightarrow> Some (Inr (with_params r)))"

text \<open>
  \<open>urlunparse\<close>, with \<open>urlunsplit\<close> inlined. The releases of Python 3.11 differ in one
  place: for an empty authority and a path that starts with \<open>//\<close>, the later ones write
  \<open>//\<close> in front of the path and the earlier ones do not. \<open>later\<close> chooses the rule.
\<close>

definition urlunparse :: "bool \<Rightarrow> parse_result \<Rightarrow> string" where
  "urlunparse later p =
     (let url0 = (if pr_params p \<noteq> [] then pr_path p @ '';'' @ pr_params p else pr_path p);
          authority = (if later
                       then pr_netloc p \<noteq> [] \<or> (pr_scheme p \<noteq> [] \<and> pr_scheme p \<in> set uses_netloc)
                            \<or> take 2 url0 = ''//''
                       else pr_netloc p \<noteq> []
                            \<or> (pr_scheme p \<noteq> [] \<and> pr_scheme p \<in> set uses_netloc
                                \<and> take 2 url0 \<noteq> ''//''));
          url1 = (if authority
                  then ''//'' @ pr_netloc p @
                       (if url0 \<noteq> [] \<and> take 1 url0 \<noteq> ''/'' then ''/'' @ url0 else url0)
                  else url0);
          url2 = (if pr_scheme p \<noteq> [] then pr_scheme p @ '':'' @ url1 else url1);
          url3 = (if pr_query p \<noteq> [] then url2 @ ''?'' @ pr_query p else url2)
      in if pr_fragment p \<noteq> [] then url3 @ ''#'' @ pr_fragment p else url3)"

text \<open>The loop of \<open>urljoin\<close> over the path segments: \<open>..\<close> pops, \<open>.\<close> is skipped.\<close>

fun resolve_segments :: "string list \<Rightarrow> string list \<Rightarrow> string list" where
  "resolve_segments resolved [] = resolved"
| "resolve_segments resolved (seg # segs) =
     (if seg = ''..'' then resolve_segments (butlast resolved) segs
      else if seg = ''.'' then resolve_segments resolved segs
      else resolve_segments (resolved @ [seg]) segs)"

text \<open>\<open>segments[1:-1] = filter(None, segments[1:-1])\<close>.\<close>

fun filter_inner :: "string list \<Rightarrow> string list" where
  "filter_inner [] = []"
| "filter_inner [a] = [a]"
| "filter_inner (a # b # bs) = a # filter (\<lambda>s. s \<noteq> []) (butlast (b # bs)) @ [last (b # bs)]"

text \<open>
  The path of the joined URL: the segments of the base path up to its last \<open>/\<close>, followed
  by those of the relative path, unless that one starts at the root.
\<close>

definition resolve_path :: "string \<Rightarrow> string \<Rightarrow> string" where
  "resolve_path bpath path =
     (let base_parts0 = split_on CHR ''/'' bpath;
          base_parts = (if last base_parts0 \<noteq> [] then butlast base_parts0 else base_parts0);
          segments = (if take 1 path = ''/''
                      then split_on CHR ''/'' path
                      else filter_inner (base_parts @ split_on CHR ''/'' path));
          resolved0 = resolve_segments [] segments;
          resolved = (if last segments = ''.'' \<or> last segments = ''..''
                      then resolved0 @ [[]] else resolved0);
          joined = str_join ''/'' resolved
      in if joined = [] then ''/'' else joined)"

text \<open>\<open>urljoin\<close> once the base \<open>b\<close> and the URL \<open>u\<close> are parsed.\<close>

definition join_parsed :: "bool \<Rightarrow> string \<Rightarrow> parse_result \<Rightarrow> parse_result \<Rightarrow> string" where
  "join_parsed later url b u =
     (if pr_scheme u \<noteq> pr_scheme b \<or> pr_scheme u \<notin> set uses_relative then url
      else if pr_scheme u \<in> set uses_netloc \<and> pr_netloc u \<noteq> [] then urlunparse later u
      else
        let netloc = (if pr_scheme u \<in> set uses_netloc then pr_netloc b else pr_netloc u)
        in if pr_path u = [] \<and> pr_params u = []
           then urlunparse later (u\<lparr>pr_netloc := netloc, pr_path := pr_path b,
                  pr_params := pr_params b,
                  pr_query := (if pr_query u = [] then pr_query b else pr_query u)\<rparr>)
           else urlunparse later (u\<lparr>pr_netloc := netloc,
                  pr_path := resolve_path (pr_path b) (pr_path u)\<rparr>))"

text \<open>\<open>urljoin(base, url)\<close>: the base is parsed first, then the URL.\<close>

definition py_urljoin :: "bool \<Rightarrow> string \<Rightarrow> string \<Rightarrow> (error + string) option" where
  "py_urljoin later base url =
     (if base = [] then Some (Inr url)
      else if url = [] then Some (Inr base)
      else case urlparse base [] of
             None \<Rightarrow> None
           | Some (Inl err) \<Rightarrow> Some (Inl err)
           | Some (Inr b) \<Rightarrow>
               (case urlparse url (pr_scheme b) of
                  None \<Rightarrow> None
                | Some (Inl err) \<Rightarrow> Some (Inl err)
                | Some (Inr u) \<Rightarrow> Some (Inr (join_parsed later url b u))))"


text \<open>
  The \<open>urljoin\<close> of an environment is a function from the base and the URL to the joined
  URL. This one gives what the library returns; where the library raises, or the model
  stops, no URL comes back and none is given.
\<close>

definition returned_url :: "(error + string) option \<Rightarrow> string" where
  "returned_url r = (case r of Some (Inr u) \<Rightarrow> u | _ \<Rightarrow> [])"

section \<open>The client\<close>

subsection \<open>Environment and objects\<close>

text \<open>
  What the module takes from outside \<open>client.py\<close>: the directory of the installed module
  (\<open>os.path.dirname(os.path.realpath(__file__))\<close>), the two functions of \<open>compat\<close>, the
  default headers of a fresh \<open>requests\<close> session, and the session's HTTP methods
  (\<open>transport\<close>), which either raise or return a response. Of a response the client uses
  only \<open>json()\<close>, which returns the decoded body or raises. \<open>quote\<close> and \<open>urljoin\<close> are
  functions that return; what is proved of an endpoint URI under the library's \<open>urljoin\<close>
  is proved for the calls in which that returns.
\<close>

record hmac_auth =
  api_key :: pyval
  api_secret :: pyval
  api_version :: pyval

record session =
  auth :: hmac_auth
  headers :: "string \<rightharpoonup> string"

record call =
  call_method :: string
  call_uri :: string
  call_kwargs :: kwargs

record 'j response =
  json :: "error + 'j"

record 'j env =
  module_dir :: string
  quote :: "string \<Rightarrow> string"
  urljoin :: "string \<Rightarrow> string \<Rightarrow> string"
  default_headers :: "string \<rightharpoonup> string"
  transport :: "session \<Rightarrow> call \<Rightarrow> error + 'j response"

text \<open>\<open>os.path.join(a, b)\<close> on POSIX paths.\<close>

definition os_path_join :: "string \<Rightarrow> string \<Rightarrow> string" where
  "os_path_join a b =
     (if take 1 b = ''/'' then b
      else if a = [] \<or> last a = CHR ''/'' then a @ b
      else a @ ''/'' @ b)"

definition ETHCLIENT_CRT_PATH :: "'j env \<Rightarrow> string" where
  "ETHCLIENT_CRT_PATH e = os_path_join (module_dir e) ''ca-ethwallet.crt''"

definition ETHCLIENT_CALLBACK_PUBLIC_KEY_PATH :: "'j env \<Rightarrow> string" where
  "ETHCLIENT_CALLBACK_PUBLIC_KEY_PATH e = os_path_join (module_dir e) ''ethwallet-callback.pub''"

text \<open>
  A client object. \<open>VERIFY_SSL\<close> and \<open>cached_callback_public_key\<close> are class attributes
  that an instance reads through \<open>self\<close>; the constructor assigns the other three.
\<close>

record client =
  VERIFY_SSL :: bool
  API_VERSION :: pyval
  cached_callback_public_key :: pyval
  BASE_API_URI :: string
  session :: session

text \<open>
  The state the methods run in: the object \<open>self\<close>, which a method could assign to, and
  the calls handed to the HTTP session so far, oldest first.
\<close>

record state =
  self :: client
  wire :: "call list"

text \<open>
  Modelled from the spec: the credential \<open>{api_key, api_secret, api_version}\<close> that the
  signer holds (\<open>auth.HMACAuth\<close> is missing).
\<close>

definition HMACAuth :: "pyval \<Rightarrow> pyval \<Rightarrow> pyval \<Rightarrow> hmac_auth" where
  "HMACAuth k s v = \<lparr>api_key = k, api_secret = s, api_version = v\<rparr>"

subsection \<open>Construction\<close>

definition Client_build_session ::
  "'j env \<Rightarrow> (pyval \<Rightarrow> pyval \<Rightarrow> pyval \<Rightarrow> hmac_auth) \<Rightarrow> pyval \<Rightarrow> pyval \<Rightarrow> pyval \<Rightarrow> session" where
  "Client_build_session e auth_class k s v =
     \<lparr>auth = auth_class k s v,
      headers = (default_headers e)(''Accept'' \<mapsto> ''application/json'',
        ''Content-Type'' \<mapsto> ''application/json'',
        ''User-Agent'' \<mapsto> ''ethwallet/python/3.0'')\<rparr>"

definition Client_init :: "'j env \<Rightarrow> pyval \<Rightarrow> pyval \<Rightarrow> string \<Rightarrow> pyval \<Rightarrow> error + client" where
  "Client_init e k s base_api_uri v =
     (if \<not> truthy k then Inl (ValueError ''Missing `api_key`.'')
      else if \<not> truthy s then Inl (ValueError ''Missing `api_secret`.'')
      else case check_uri_security base_api_uri of
             Inl err \<Rightarrow> Inl err
           | Inr uri \<Rightarrow>
               Inr \<lparr>VERIFY_SSL = True,
                    API_VERSION = py_or v (PStr ''2016-05-17''),
                    cached_callback_public_key = PNone,
                    BASE_API_URI = uri,
                    session = Client_build_session e HMACAuth k s
                                (py_or v (PStr ''2016-05-17''))\<rparr>)"

text \<open>The state right after construction: nothing has been sent.\<close>

definition fresh :: "client \<Rightarrow> state" where
  "fresh c = \<lparr>self = c, wire = []\<rparr>"

subsection \<open>Requests\<close>

definition Client_create_api_uri :: "'j env \<Rightarrow> client \<Rightarrow> string list \<Rightarrow> string" where
  "Client_create_api_uri e c parts =
     urljoin e (BASE_API_URI c) (str_join ''/'' (map (quote e) (parts @ [''/''])))"

definition Client_handle_response :: "'j response \<Rightarrow> error + 'j" where
  "Client_handle_response r = json r"

definition Client_request ::
  "'j env \<Rightarrow> string \<Rightarrow> string list \<Rightarrow> kwargs \<Rightarrow> state \<Rightarrow> (error + 'j) \<times> state" where
  "Client_request e method relative_path_parts kwargs0 st =
     (let uri = Client_create_api_uri e (self st) relative_path_parts;
          data = kwargs_get kwargs0 ''data'';
          kwargs1 = (if truthy data \<and> isinstance_dict data
                     then kwargs0(''data'' \<mapsto> PStr (encode_params (dict_items data)))
                     else kwargs0);
          kwargs2 = (if VERIFY_SSL (self st)
                     then setdefault kwargs1 ''verify'' (PStr (ETHCLIENT_CRT_PATH e))
                     else setdefault kwargs1 ''verify'' (PBool False));
          kwargs3 = kwargs2(''verify'' \<mapsto> PBool (VERIFY_SSL (self st)));
          c = \<lparr>call_method = method, call_uri = uri, call_kwargs = kwargs3\<rparr>
      in (case transport e (session (self st)) c of
            Inl err \<Rightarrow> Inl err
          | Inr r \<Rightarrow> Client_handle_response r,
          st\<lparr>wire := wire st @ [c]\<rparr>))"

definition Client_get :: "'j env \<Rightarrow> string list \<Rightarrow> kwargs \<Rightarrow> state \<Rightarrow> (error + 'j) \<times> state" where
  "Client_get e parts kw st = Client_request e ''get'' parts kw st"

definition Client_post :: "'j env \<Rightarrow> string list \<Rightarrow> kwargs \<Rightarrow> state \<Rightarrow> (error + 'j) \<times> state" where
  "Client_post e parts kw st = Client_request e ''post'' parts kw st"

definition Client_put :: "'j env \<Rightarrow> string list \<Rightarrow> kwargs \<Rightarrow> state \<Rightarrow> (error + 'j) \<times> state" where
  "Client_put e parts kw st = Client_request e ''put'' parts kw st"

definition Client_delete :: "'j env \<Rightarrow> string list \<Rightarrow> kwargs \<Rightarrow> state \<Rightarrow> (error + 'j) \<times> state" where
  "Client_delete e parts kw st = Client_request e ''delete'' parts kw st"

subsection \<open>Addresses API\<close>

definition Client_create_address :: "'j env \<Rightarrow> state \<Rightarrow> (error + 'j) \<times> state" where
  "Client_create_address e st = Client_post e [''v1'', ''addresses''] Map.empty st"

definition Client_send :: "'j env \<Rightarrow> string \<Rightarrow> string \<Rightarrow> state \<Rightarrow> (error + 'j) \<times> state" where
  "Client_send e amount address st =
     (let params = [(''amount'', amount), (''address'', address)]
      in Client_post e [''v1'', ''send''] [''data'' \<mapsto> PDict params] st)"

subsection \<open>The operations of a client, and runs of them\<close>

datatype operation =
    Create_address
  | Send string string
  | Get "string list" kwargs
  | Post "string list" kwargs
  | Put "string list" kwargs
  | Delete "string list" kwargs
  | Request string "string list" kwargs

fun perform :: "'j env \<Rightarrow> operation \<Rightarrow> state \<Rightarrow> (error + 'j) \<times> state" where
  "perform e Create_address st = Client_create_address e st"
| "perform e (Send amount address) st = Client_send e amount address st"
| "perform e (Get parts kw) st = Client_get e parts kw st"
| "perform e (Post parts kw) st = Client_post e parts kw st"
| "perform e (Put parts kw) st = Client_put e parts kw st"
| "perform e (Delete parts kw) st = Client_delete e parts kw st"
| "perform e (Request method parts kw) st = Client_request e method parts kw st"

text \<open>A run performs the operations in order, whatever each of them returns or raises.\<close>

fun run :: "'j env \<Rightarrow> operation list \<Rightarrow> state \<Rightarrow> state" where
  "run e [] st = st"
| "run e (x # xs) st = run e xs (snd (perform e x st))"

subsection \<open>The namespace of the class\<close>

text \<open>
  What the body of \<open>class Client(object)\<close> binds, in its order: three class attributes and
  eleven methods. An instance adds the three attributes that the constructor assigns.
  Looking up any other name on a client raises \<open>AttributeError\<close> (the names that every
  \<open>object\<close> has apart).
\<close>

datatype member = Attribute pyval | Session session | Method

definition Client_namespace :: "(string \<times> member) list" where
  "Client_namespace =
     [(''VERIFY_SSL'', Attribute (PBool True)),
      (''API_VERSION'', Attribute (PStr ''2016-05-17'')),
      (''cached_callback_public_key'', Attribute PNone),
      (''__init__'', Method),
      (''_build_session'', Method),
      (''_create_api_uri'', Method),
      (''_request'', Method),
      (''_handle_response'', Method),
      (''_get'', Method),
      (''_post'', Method),
      (''_put'', Method),
      (''_delete'', Method),
      (''create_address'', Method),
      (''send'', Method)]"

definition instance_dict :: "client \<Rightarrow> (string \<times> member) list" where
  "instance_dict c =
     [(''BASE_API_URI'', Attribute (PStr (BASE_API_URI c))),
      (''API_VERSION'', Attribute (API_VERSION c)),
      (''session'', Session (session c))]"

text \<open>\<open>getattr(client, name)\<close>: the instance first, then the class.\<close>

definition Client_getattr :: "client \<Rightarrow> string \<Rightarrow> error + member" where
  "Client_getattr c name =
     (case map_of (instance_dict c @ Client_namespace) name of
        None \<Rightarrow> Inl (AttributeError name)
      | Some m \<Rightarrow> Inr m)"

subsection \<open>An environment for concrete runs\<close>

text \<open>
  The standard library's \<open>quote\<close> and \<open>urljoin\<close>, a module installed under
  \<open>/opt/ethwallet\<close>, and a session whose server cannot be reached.
\<close>

definition offline_env :: "pyval env" where
  "offline_env =
     \<lparr>module_dir = ''/opt/ethwallet'', quote = py_quote,
      urljoin = (\<lambda>base url. returned_url (py_urljoin True base url)),
      default_headers = Map.empty,
      transport = (\<lambda>s c. Inl (RequestException ''unreachable''))\<rparr>"

text \<open>
  The client that the constructor builds there from the key \<open>k1\<close>, the secret \<open>s1\<close>, no
  version and the base URI \<open>base\<close>.
\<close>

definition scenario_client :: "string \<Rightarrow> client" where
  "scenario_client base =
     \<lparr>VERIFY_SSL = True,
      API_VERSION = PStr ''2016-05-17'',
      cached_callback_public_key = PNone,
      BASE_API_URI = base,
      session = Client_build_session offline_env HMACAuth (PStr ''k1'') (PStr ''s1'')
                  (PStr ''2016-05-17'')\<rparr>"

section \<open>Facts about the model\<close>

subsection \<open>Construction\<close>

lemma Client_init_cases:
  "Client_init e k s uri v =
     (if \<not> truthy k then Inl (ValueError ''Missing `api_key`.'')
      else if \<not> truthy s then Inl (ValueError ''Missing `api_secret`.'')
      else if uri_scheme uri \<noteq> ''https'' then Inl InsecureTransportError
      else Inr \<lparr>VERIFY_SSL = True,
                API_VERSION = py_or v (PStr ''2016-05-17''),
                cached_callback_public_key = PNone,
                BASE_API_URI = uri,
                session = Client_build_session e HMACAuth k s (py_or v (PStr ''2016-05-17''))\<rparr>)"
  by (simp add: Client_init_def check_uri_security_def)

lemma uri_scheme_http: "uri_scheme ''http://api.example.com/'' = ''http''"
  by (simp add: uri_scheme_def ascii_lower_def)

lemma uri_scheme_https:
  "uri_scheme (CHR ''h'' # CHR ''t'' # CHR ''t'' # CHR ''p'' # CHR ''s'' # CHR '':'' # rest)
     = ''https''"
  by (simp add: uri_scheme_def ascii_lower_def)

lemma uri_scheme_upper: "uri_scheme ''HTTPS://API.example.com/'' = ''https''"
  by code_simp

lemma scenario_client_init:
  "Client_init offline_env (PStr ''k1'') (PStr ''s1'') (''https://'' @ rest) PNone
     = Inr (scenario_client (''https://'' @ rest))"
  by (simp add: Client_init_cases uri_scheme_https scenario_client_def py_or_def)

lemma scenario_client_example:
  "Client_init offline_env (PStr ''k1'') (PStr ''s1'') ''https://api.example.com/'' PNone
     = Inr (scenario_client ''https://api.example.com/'')"
  using scenario_client_init [of "''api.example.com/''"] by simp

subsection \<open>Requests and runs\<close>

text \<open>A request appends exactly one call and leaves the object alone.\<close>

lemma request_state:
  "snd (Client_request e m parts kw st) =
     st\<lparr>wire := wire st @
        [\<lparr>call_method = m,
          call_uri = Client_create_api_uri e (self st) parts,
          call_kwargs =
            (if truthy (kwargs_get kw ''data'') \<and> isinstance_dict (kwargs_get kw ''data'')
             then kw(''data'' \<mapsto> PStr (encode_params (dict_items (kwargs_get kw ''data''))))
             else kw)(''verify'' \<mapsto> PBool (VERIFY_SSL (self st)))\<rparr>]\<rparr>"
  by (simp add: Client_request_def Let_def setdefault_def split: option.split)

lemma perform_state:
  "\<exists>c. snd (perform e x st) = st\<lparr>wire := wire st @ [c]\<rparr>
       \<and> call_kwargs c ''verify'' = Some (PBool (VERIFY_SSL (self st)))"
  by (cases x)
    (simp_all only: perform.simps request_state Client_create_address_def Client_send_def
      Client_get_def Client_post_def Client_put_def Client_delete_def Let_def,
     (rule exI, rule conjI, rule refl, simp)+)

lemma run_invariant:
  "self (run e xs st) = self st
   \<and> length (wire (run e xs st)) = length (wire st) + length xs
   \<and> (\<forall>c \<in> set (wire (run e xs st)) - set (wire st).
        call_kwargs c ''verify'' = Some (PBool (VERIFY_SSL (self st))))"
proof (induction xs arbitrary: st)
  case Nil
  show ?case by simp
next
  case (Cons x xs)
  obtain c where c: "snd (perform e x st) = st\<lparr>wire := wire st @ [c]\<rparr>"
    "call_kwargs c ''verify'' = Some (PBool (VERIFY_SSL (self st)))"
    using perform_state by blast
  from Cons.IH [of "st\<lparr>wire := wire st @ [c]\<rparr>"] c
  show ?case by auto
qed

text \<open>Every call of a run goes to a URI that \<open>_create_api_uri\<close> built from the object.\<close>

lemma perform_uri:
  "\<exists>c parts. snd (perform e x st) = st\<lparr>wire := wire st @ [c]\<rparr>
       \<and> call_uri c = Client_create_api_uri e (self st) parts"
  by (cases x)
    (simp_all only: perform.simps request_state Client_create_address_def Client_send_def
      Client_get_def Client_post_def Client_put_def Client_delete_def Let_def,
     (rule exI, rule exI, rule conjI, rule refl, simp)+)

lemma run_uris:
  "\<forall>c \<in> set (wire (run e xs st)) - set (wire st).
      \<exists>parts. call_uri c = Client_create_api_uri e (self st) parts"
proof (induction xs arbitrary: st)
  case Nil
  show ?case by simp
next
  case (Cons x xs)
  obtain c parts where c: "snd (perform e x st) = st\<lparr>wire := wire st @ [c]\<rparr>"
    "call_uri c = Client_create_api_uri e (self st) parts"
    using perform_uri by blast
  from Cons.IH [of "st\<lparr>wire := wire st @ [c]\<rparr>"] c
  show ?case by auto
qed

subsection \<open>Canonical order\<close>

lemma canonical_pairs_unique:
  assumes "distinct (map fst xs)" and "distinct (map fst ys)" and "map_of xs = map_of ys"
  shows "canonical_pairs xs = canonical_pairs ys"
proof -
  have s: "set xs = set ys"
    using assms by (simp add: map_of_inject_set)
  have inj: "inj_on fst (set (sort_key fst xs) \<union> set (sort_key fst ys))"
    using assms(1) s by (simp add: distinct_map)
  have "sort_key fst xs = sort_key fst ys"
  proof (rule map_sorted_distinct_set_unique [OF inj])
    show "sorted (map fst (sort_key fst xs))" by simp
    show "sorted (map fst (sort_key fst ys))" by simp
    show "distinct (map fst (sort_key fst xs))"
      using assms(1) by (simp add: distinct_map)
    show "distinct (map fst (sort_key fst ys))"
      using assms(2) by (simp add: distinct_map)
    show "set (sort_key fst xs) = set (sort_key fst ys)"
      using s by simp
  qed
  then show ?thesis by (simp add: canonical_pairs_def)
qed

subsection \<open>Joining and splitting text\<close>







subsection \<open>What \<open>py_quote\<close> writes\<close>















subsection \<open>\<open>py_urljoin\<close> keeps a trailing slash\<close>

















subsection \<open>\<open>py_urljoin\<close> drops a doubled trailing slash\<close>















section \<open>The claims\<close>

subsection \<open>C1: the pinned CA certificate\<close>

text \<open>
  Claim C1 says that every request dispatched while \<open>VERIFY_SSL\<close> is true hands the pinned
  CA certificate path \<open>ETHCLIENT_CRT_PATH\<close> to the transport as its \<open>verify\<close> option. The
  code sets that default and then overwrites it: whatever the caller passed, the
  transport receives \<open>verify=True\<close>, the boolean, and never the path.
\<close>

theorem pinned_ca_overwritten:
  assumes "VERIFY_SSL (self st)"
  shows "\<exists>c. snd (Client_request e m parts kw st) = st\<lparr>wire := wire st @ [c]\<rparr>
           \<and> call_kwargs c ''verify'' = Some (PBool True)
           \<and> call_kwargs c ''verify'' \<noteq> Some (PStr (ETHCLIENT_CRT_PATH e))"
  unfolding request_state
  by (rule exI, rule conjI, rule refl) (simp add: assms)

theorem pinned_ca_overwritten_witness:
  "VERIFY_SSL (self (fresh (scenario_client ''https://api.example.com/'')))
   \<and> map (\<lambda>c. call_kwargs c ''verify'')
        (wire (snd (Client_request offline_env ''post'' [''v1'', ''addresses''] Map.empty
           (fresh (scenario_client ''https://api.example.com/'')))))
       = [Some (PBool True)]
   \<and> ETHCLIENT_CRT_PATH offline_env = ''/opt/ethwallet/ca-ethwallet.crt''"
proof -
  have v: "VERIFY_SSL (self (fresh (scenario_client ''https://api.example.com/'')))"
    by (simp add: fresh_def scenario_client_def)
  have p: "ETHCLIENT_CRT_PATH offline_env = ''/opt/ethwallet/ca-ethwallet.crt''"
    by (simp add: ETHCLIENT_CRT_PATH_def os_path_join_def offline_env_def)
  show ?thesis
    using pinned_ca_overwritten [OF v, of offline_env "''post''" "[''v1'', ''addresses'']" Map.empty]
      v p
    by (auto simp: fresh_def)
qed

subsection \<open>C2: the base URI must use https\<close>

text \<open>
  Claim C2: for every base URI whose scheme is not https, constructing the client (with
  the credentials that the constructor asks for first) fails with
  \<open>InsecureTransportError\<close>, a hard failure. For every https base URI, in whatever case
  the scheme is written and whatever follows it, so for each one with a well-formed
  host, the validation succeeds and the client is built with that base URI stored: it is
  the base URI of the object along every run, and every request of a run goes to a URI
  that \<open>_create_api_uri\<close> resolves against it.
\<close>

theorem insecure_base_uri_rejected:
  assumes "truthy k" and "truthy s"
  shows "(uri_scheme uri \<noteq> ''https'' \<longrightarrow>
            check_uri_security uri = Inl InsecureTransportError
            \<and> Client_init e k s uri v = Inl InsecureTransportError)
       \<and> (uri_scheme uri = ''https'' \<longrightarrow>
            check_uri_security uri = Inr uri
            \<and> (\<exists>c. Client_init e k s uri v = Inr c \<and> BASE_API_URI c = uri
                 \<and> (\<forall>ops. BASE_API_URI (self (run e ops (fresh c))) = uri
                       \<and> (\<forall>x \<in> set (wire (run e ops (fresh c))).
                             \<exists>parts. call_uri x =
                               urljoin e uri (str_join ''/'' (map (quote e) (parts @ [''/''])))))))"
proof -
  have r: "BASE_API_URI (self (run e ops (fresh c))) = BASE_API_URI c
      \<and> (\<forall>x \<in> set (wire (run e ops (fresh c))).
            \<exists>parts. call_uri x =
              urljoin e (BASE_API_URI c) (str_join ''/'' (map (quote e) (parts @ [''/'']))))"
    for c ops
    using run_invariant [of e ops "fresh c"] run_uris [of e ops "fresh c"]
    by (simp add: fresh_def Client_create_api_uri_def)
  show ?thesis
  proof (cases "uri_scheme uri = ''https''")
    case False
    with assms show ?thesis
      by (simp add: Client_init_cases check_uri_security_def)
  next
    case True
    define c where "c = \<lparr>VERIFY_SSL = True,
        API_VERSION = py_or v (PStr ''2016-05-17''),
        cached_callback_public_key = PNone,
        BASE_API_URI = uri,
        session = Client_build_session e HMACAuth k s (py_or v (PStr ''2016-05-17''))\<rparr>"
    have i: "Client_init e k s uri v = Inr c"
      using assms True by (simp add: Client_init_cases c_def)
    have b: "BASE_API_URI c = uri"
      by (simp add: c_def)
    have "\<forall>ops. BASE_API_URI (self (run e ops (fresh c))) = uri
        \<and> (\<forall>x \<in> set (wire (run e ops (fresh c))).
              \<exists>parts. call_uri x =
                urljoin e uri (str_join ''/'' (map (quote e) (parts @ [''/'']))))"
      using r [of _ c] unfolding b by blast
    with i b True show ?thesis
      by (simp add: check_uri_security_def)
  qed
qed

theorem insecure_base_uri_rejected_witness:
  "truthy (PStr ''k1'') \<and> truthy (PStr ''s1'')
   \<and> uri_scheme ''http://api.example.com/'' \<noteq> ''https''
   \<and> Client_init offline_env (PStr ''k1'') (PStr ''s1'') ''http://api.example.com/'' PNone
       = Inl InsecureTransportError
   \<and> uri_scheme ''https://api.example.com/'' = ''https''
   \<and> uri_scheme ''HTTPS://API.example.com/'' = ''https''
   \<and> check_uri_security ''HTTPS://API.example.com/'' = Inr ''HTTPS://API.example.com/''
   \<and> check_uri_security ''https://api.example.com/'' = Inr ''https://api.example.com/''
   \<and> Client_init offline_env (PStr ''k1'') (PStr ''s1'') ''https://api.example.com/'' PNone
       = Inr (scenario_client ''https://api.example.com/'')
   \<and> BASE_API_URI (scenario_client ''https://api.example.com/'') = ''https://api.example.com/''
   \<and> map call_uri
        (wire (run offline_env [Create_address, Send ''5'' ''0xabc'']
           (fresh (scenario_client ''https://api.example.com/''))))
       = [''https://api.example.com/v1/addresses/'', ''https://api.example.com/v1/send/'']"
proof -
  have k: "truthy (PStr ''k1'')" and s: "truthy (PStr ''s1'')" by simp_all
  have a: "uri_scheme ''http://api.example.com/'' \<noteq> ''https''"
    by (simp add: uri_scheme_http)
  have b: "uri_scheme ''https://api.example.com/'' = ''https''"
    by (simp add: uri_scheme_https)
  have u1: "Client_create_api_uri offline_env (scenario_client ''https://api.example.com/'')
      [''v1'', ''addresses''] = ''https://api.example.com/v1/addresses/''"
    by code_simp
  have u2: "Client_create_api_uri offline_env (scenario_client ''https://api.example.com/'')
      [''v1'', ''send''] = ''https://api.example.com/v1/send/''"
    by code_simp
  have w: "map call_uri
        (wire (run offline_env [Create_address, Send ''5'' ''0xabc'']
           (fresh (scenario_client ''https://api.example.com/''))))
       = [''https://api.example.com/v1/addresses/'', ''https://api.example.com/v1/send/'']"
    by (simp add: request_state Client_create_address_def Client_send_def Client_post_def
        fresh_def u1 u2)
  show ?thesis
    using insecure_base_uri_rejected [OF k s, of "''http://api.example.com/''" offline_env PNone]
      insecure_base_uri_rejected [OF k s, of "''https://api.example.com/''" offline_env PNone]
      insecure_base_uri_rejected [OF k s, of "''HTTPS://API.example.com/''" offline_env PNone]
      a b uri_scheme_upper scenario_client_example k s w
    by (simp add: scenario_client_def check_uri_security_def)
qed

subsection \<open>C3: callback verification\<close>

text \<open>
  Claim C3 says that the client exposes a callback-verification operation \<open>verify\<close>. The
  class defines none: asking a client for \<open>verify\<close>, under any of the names the
  specification uses, raises \<open>AttributeError\<close>.
\<close>

theorem no_verify_operation_counterexample:
  "Client_getattr (scenario_client ''https://api.example.com/'') ''verify''
     = Inl (AttributeError ''verify'')
   \<and> Client_getattr (scenario_client ''https://api.example.com/'') ''verify_callback''
     = Inl (AttributeError ''verify_callback'')
   \<and> Client_getattr (scenario_client ''https://api.example.com/'') ''verifyCallback''
     = Inl (AttributeError ''verifyCallback'')"
  by (simp add: Client_getattr_def Client_namespace_def instance_dict_def)

text \<open>
  Claim C3, amended: the client exposes no callback-verification operation. Its methods
  are the constructor, the request helpers, \<open>create_address\<close> and \<open>send\<close>; of callback
  verification it has only the attribute \<open>cached_callback_public_key\<close>, which is \<open>None\<close>
  after construction and which no run of operations changes.
\<close>

theorem no_callback_verification:
  "(Client_getattr c name = Inr Method \<longrightarrow>
      name \<in> set [''__init__'', ''_build_session'', ''_create_api_uri'', ''_request'',
        ''_handle_response'', ''_get'', ''_post'', ''_put'', ''_delete'', ''create_address'',
        ''send''])
   \<and> Client_getattr c ''cached_callback_public_key'' = Inr (Attribute PNone)
   \<and> (Client_init e k s uri v = Inr c \<longrightarrow> cached_callback_public_key c = PNone)
   \<and> cached_callback_public_key (self (run e ops st)) = cached_callback_public_key (self st)"
proof -
  have "Client_getattr c name = Inr Method \<longrightarrow>
      name \<in> set [''__init__'', ''_build_session'', ''_create_api_uri'', ''_request'',
        ''_handle_response'', ''_get'', ''_post'', ''_put'', ''_delete'', ''create_address'',
        ''send'']"
    by (simp add: Client_getattr_def Client_namespace_def instance_dict_def split: if_splits)
  moreover have "Client_getattr c ''cached_callback_public_key'' = Inr (Attribute PNone)"
    by (simp add: Client_getattr_def Client_namespace_def instance_dict_def)
  moreover have "Client_init e k s uri v = Inr c \<longrightarrow> cached_callback_public_key c = PNone"
    by (auto simp: Client_init_cases split: if_splits)
  moreover have "cached_callback_public_key (self (run e ops st))
      = cached_callback_public_key (self st)"
    using run_invariant [of e ops st] by simp
  ultimately show ?thesis by blast
qed

theorem no_callback_verification_witness:
  "Client_getattr (scenario_client ''https://api.example.com/'') ''send'' = Inr Method
   \<and> Client_init offline_env (PStr ''k1'') (PStr ''s1'') ''https://api.example.com/'' PNone
       = Inr (scenario_client ''https://api.example.com/'')
   \<and> cached_callback_public_key (scenario_client ''https://api.example.com/'') = PNone"
  using no_callback_verification [of "scenario_client ''https://api.example.com/''" "''send''"
      offline_env "PStr ''k1''" "PStr ''s1''" "''https://api.example.com/''" PNone "[]"
      "fresh (scenario_client ''https://api.example.com/'')"]
    scenario_client_example
  by (simp add: Client_getattr_def Client_namespace_def instance_dict_def)

subsection \<open>C4: credentials are required\<close>

text \<open>
  Claim C4: constructing a client with an empty or missing \<open>api_key\<close>, or an empty or
  missing \<open>api_secret\<close>, fails with an error and yields no client; with a non-empty key
  and secret, construction does not fail on credential grounds. \<open>None\<close> and the empty
  string are the values Python counts as false here, and every non-empty string counts
  as true.
\<close>

theorem constructor_credentials:
  "(\<not> truthy k \<or> \<not> truthy s \<longrightarrow> (\<exists>msg. Client_init e k s uri v = Inl (ValueError msg)))
   \<and> (truthy k \<and> truthy s \<longrightarrow> (\<forall>msg. Client_init e k s uri v \<noteq> Inl (ValueError msg)))
   \<and> \<not> truthy PNone \<and> \<not> truthy (PStr [])
   \<and> (\<forall>t. t \<noteq> [] \<longrightarrow> truthy (PStr t))"
  by (simp add: Client_init_cases)

theorem constructor_credentials_witness:
  "(\<exists>msg. Client_init offline_env (PStr []) (PStr ''s1'') ''https://api.example.com/'' PNone
       = Inl (ValueError msg))
   \<and> (\<exists>msg. Client_init offline_env (PStr ''k1'') PNone ''https://api.example.com/'' PNone
       = Inl (ValueError msg))
   \<and> (\<forall>msg. Client_init offline_env (PStr ''k1'') (PStr ''s1'') ''https://api.example.com/'' PNone
       \<noteq> Inl (ValueError msg))
   \<and> truthy (PStr ''k1'')"
  using constructor_credentials [of "PStr []" "PStr ''s1''" offline_env
      "''https://api.example.com/''" PNone]
    constructor_credentials [of "PStr ''k1''" PNone offline_env
      "''https://api.example.com/''" PNone]
    constructor_credentials [of "PStr ''k1''" "PStr ''s1''" offline_env
      "''https://api.example.com/''" PNone]
  by simp

subsection \<open>C5: the canonical encoding is deterministic\<close>

text \<open>
  Claim C5: for fixed method, path, timestamp and parameters the canonical encoding is
  the same on every run, whatever the insertion order of the keys. Two association lists
  with distinct keys that are the same dictionary encode to the same text.
\<close>

theorem encoding_deterministic:
  assumes "distinct (map fst xs)" and "distinct (map fst ys)" and "map_of xs = map_of ys"
  shows "encode_params xs = encode_params ys
       \<and> CanonicalEncoder_encode layout method path timestamp xs
         = CanonicalEncoder_encode layout method path timestamp ys"
  using canonical_pairs_unique [OF assms]
  by (simp add: encode_params_def CanonicalEncoder_encode_def)

theorem encoding_deterministic_witness:
  "encode_params [(''amount'', ''5''), (''address'', ''0xabc'')]
     = encode_params [(''address'', ''0xabc''), (''amount'', ''5'')]
   \<and> CanonicalEncoder_encode (\<lambda>m p t b. m @ p @ b) ''POST'' ''v1/send'' 1000
        [(''amount'', ''5''), (''address'', ''0xabc'')]
     = CanonicalEncoder_encode (\<lambda>m p t b. m @ p @ b) ''POST'' ''v1/send'' 1000
        [(''address'', ''0xabc''), (''amount'', ''5'')]"
proof -
  have d1: "distinct (map fst [(''amount'', ''5''), (''address'', ''0xabc'')])" by simp
  have d2: "distinct (map fst [(''address'', ''0xabc''), (''amount'', ''5'')])" by simp
  have m: "map_of [(''amount'', ''5''), (''address'', ''0xabc'')]
         = map_of [(''address'', ''0xabc''), (''amount'', ''5'')]"
    by (auto simp: fun_eq_iff)
  show ?thesis
    using encoding_deterministic [OF d1 d2 m] by simp
qed

subsection \<open>C6: keys are sorted\<close>

text \<open>
  Claim C6: the canonical parameter encoding sorts the keys lexicographically and then
  joins the \<open>key=value\<close> pairs with \<open>&\<close>; the parameters \<open>amount = 5\<close>,
  \<open>address = 0xabc\<close> give exactly \<open>address=0xabc&amount=5\<close>.
\<close>

theorem encoding_sorted:
  "sorted (map fst (canonical_pairs params))
   \<and> mset (canonical_pairs params) = mset params
   \<and> encode_params params = str_join ''&'' (map pair_text (canonical_pairs params))
   \<and> pair_text (k, v) = k @ ''='' @ quote_from_bytes [] v
   \<and> encode_params [(''amount'', ''5''), (''address'', ''0xabc'')] = ''address=0xabc&amount=5''"
proof -
  have "encode_params [(''amount'', ''5''), (''address'', ''0xabc'')] = ''address=0xabc&amount=5''"
    by (simp add: encode_params_def canonical_pairs_def pair_text_def quote_from_bytes_def
        quote_byte_def always_safe_def)
  then show ?thesis
    by (simp add: canonical_pairs_def encode_params_def pair_text_def)
qed

subsection \<open>C7: verification is on by default\<close>

text \<open>
  Claim C7: a client from the constructor has \<open>VERIFY_SSL\<close> true, no operation sets it to
  false, and so every request of such a client is dispatched with transport verification
  enabled, even when the caller passes \<open>verify=False\<close>.
\<close>

theorem verification_default:
  assumes "Client_init e k s uri v = Inr c"
  shows "VERIFY_SSL c
       \<and> VERIFY_SSL (self (run e ops (fresh c)))
       \<and> length (wire (run e ops (fresh c))) = length ops
       \<and> (\<forall>x \<in> set (wire (run e ops (fresh c))). call_kwargs x ''verify'' = Some (PBool True))"
proof -
  have v: "VERIFY_SSL c"
    using assms by (auto simp: Client_init_cases split: if_splits)
  show ?thesis
    using v run_invariant [of e ops "fresh c"] by (simp add: fresh_def)
qed

theorem verification_default_witness:
  "Client_init offline_env (PStr ''k1'') (PStr ''s1'') ''https://api.example.com/'' PNone
     = Inr (scenario_client ''https://api.example.com/'')
   \<and> VERIFY_SSL (scenario_client ''https://api.example.com/'')
   \<and> map (\<lambda>c. call_kwargs c ''verify'')
        (wire (run offline_env
           [Send ''5'' ''0xabc'', Create_address,
            Request ''get'' [''v1''] [''verify'' \<mapsto> PBool False]]
           (fresh (scenario_client ''https://api.example.com/''))))
       = [Some (PBool True), Some (PBool True), Some (PBool True)]"
  using verification_default [OF scenario_client_example,
      of "[Send ''5'' ''0xabc'', Create_address,
           Request ''get'' [''v1''] [''verify'' \<mapsto> PBool False]]"]
    scenario_client_example
  by (simp add: request_state Client_create_address_def Client_send_def Client_post_def
      fresh_def)

subsection \<open>C8: \<open>send\<close>\<close>

text \<open>
  Claim C8: for every amount and address, \<open>send(amount, address)\<close> issues one POST request
  to the endpoint of the path parts \<open>v1\<close>, \<open>send\<close> under the base URI, and its parameters
  are exactly \<open>amount\<close> and \<open>address\<close> with the given values, in canonical encoding.
\<close>

theorem send_request:
  "snd (Client_send e amount address st) =
     st\<lparr>wire := wire st @
        [\<lparr>call_method = ''post'',
          call_uri = Client_create_api_uri e (self st) [''v1'', ''send''],
          call_kwargs =
            [''data'' \<mapsto> PStr (encode_params [(''amount'', amount), (''address'', address)]),
             ''verify'' \<mapsto> PBool (VERIFY_SSL (self st))]\<rparr>]\<rparr>
   \<and> Client_create_api_uri e (self st) [''v1'', ''send''] =
       urljoin e (BASE_API_URI (self st))
         (quote e ''v1'' @ ''/'' @ quote e ''send'' @ ''/'' @ quote e ''/'')
   \<and> map fst [(''amount'', amount), (''address'', address)] = [''amount'', ''address'']
   \<and> map_of [(''amount'', amount), (''address'', address)] ''amount'' = Some amount
   \<and> map_of [(''amount'', amount), (''address'', address)] ''address'' = Some address
   \<and> encode_params [(''amount'', amount), (''address'', address)] =
       ''address='' @ quote_from_bytes [] address @ ''&amount='' @ quote_from_bytes [] amount"
  by (simp add: Client_send_def Client_post_def request_state Client_create_api_uri_def
      kwargs_get_def encode_params_def canonical_pairs_def pair_text_def)

subsection \<open>C9: endpoint URIs\<close>




subsection \<open>C10: when the body is encoded\<close>

text \<open>
  Claim C10: \<open>_request\<close> encodes the \<open>data\<close> keyword argument only when it is a non-empty
  dictionary; when \<open>data\<close> is absent, an empty dictionary, or not a dictionary, the
  transport receives it as it was passed.
\<close>

theorem request_data_encoding:
  "\<exists>c. snd (Client_request e m parts kw st) = st\<lparr>wire := wire st @ [c]\<rparr>
     \<and> (\<forall>d. kw ''data'' = Some (PDict d) \<and> d \<noteq> [] \<longrightarrow>
            call_kwargs c ''data'' = Some (PStr (encode_params d)))
     \<and> ((\<forall>d. kw ''data'' = Some (PDict d) \<longrightarrow> d = []) \<longrightarrow>
            call_kwargs c ''data'' = kw ''data'')"
proof -
  have a: "truthy v \<and> isinstance_dict v \<longleftrightarrow> (\<exists>d. v = PDict d \<and> d \<noteq> [])" for v
    by (cases v) auto
  show ?thesis
    unfolding request_state
    by (rule exI, rule conjI, rule refl)
      (auto simp: a kwargs_get_def split: option.splits)
qed

theorem request_data_encoding_witness:
  "map (\<lambda>c. call_kwargs c ''data'')
     (wire (run offline_env
        [Post [''v1'', ''send''] [''data'' \<mapsto> PDict [(''amount'', ''5''), (''address'', ''0xabc'')]],
         Post [''v1'', ''send''] [''data'' \<mapsto> PDict []],
         Post [''v1'', ''send''] [''data'' \<mapsto> PStr ''amount=5''],
         Post [''v1'', ''send''] Map.empty]
        (fresh (scenario_client ''https://api.example.com/''))))
   = [Some (PStr ''address=0xabc&amount=5''), Some (PDict []), Some (PStr ''amount=5''), None]"
  using request_data_encoding [of offline_env "''post''" "[''v1'', ''send'']"
      "[''data'' \<mapsto> PDict [(''amount'', ''5''), (''address'', ''0xabc'')]]"
      "fresh (scenario_client ''https://api.example.com/'')"]
  by (simp add: request_state Client_post_def fresh_def kwargs_get_def encode_params_def
      canonical_pairs_def pair_text_def quote_from_bytes_def quote_byte_def always_safe_def)

end
